theory Spec2Isabelle
  imports Main "HOL-Library.Multiset"
begin

section \<open>JavaScript strings\<close>

text \<open>
  A JavaScript string is modelled as a \<open>string\<close>: the list of its code units, so that
  \<open>length\<close> is the \<open>.length\<close> of the source. Only the string operations the
  application calls are modelled: \<open>String.prototype.trim\<close> and
  \<open>String.prototype.replace\<close> with a string pattern and a string replacement.
\<close>

text \<open>
  The code units that \<open>trim\<close> strips (ECMAScript WhiteSpace and LineTerminator), as far
  as they are code units of \<open>char\<close>: TAB, LF, VT, FF, CR, SPACE and NBSP.
\<close>

definition isWhiteSpace :: "char \<Rightarrow> bool" where
  "isWhiteSpace c = (c = CHR 0x09 \<or> c = CHR 0x0A \<or> c = CHR 0x0B \<or> c = CHR 0x0C
     \<or> c = CHR 0x0D \<or> c = CHR 0x20 \<or> c = CHR 0xA0)"

definition trim :: "string \<Rightarrow> string" where
  "trim s = rev (dropWhile isWhiteSpace (rev (dropWhile isWhiteSpace s)))"

text \<open>
  \<open>indexOfSplit pat s\<close> finds the first (leftmost) occurrence of \<open>pat\<close> in \<open>s\<close> and
  returns the text before it and the text after it; \<open>None\<close> when \<open>pat\<close> does not occur
  (\<open>indexOf\<close> giving \<open>-1\<close>). The empty pattern occurs at index 0.
\<close>

definition startsWith :: "string \<Rightarrow> string \<Rightarrow> bool" where
  "startsWith s pat = (take (length pat) s = pat)"

fun indexOfSplit :: "string \<Rightarrow> string \<Rightarrow> (string \<times> string) option" where
  "indexOfSplit pat [] = (if pat = [] then Some ([], []) else None)"
| "indexOfSplit pat (c # cs) =
     (if startsWith (c # cs) pat then Some ([], drop (length pat) (c # cs))
      else (case indexOfSplit pat cs of
              None \<Rightarrow> None
            | Some (before, after) \<Rightarrow> Some (c # before, after)))"

text \<open>
  The abstract operation GetSubstitution of ECMAScript, for a string pattern: there are no
  captures and no named captures, so \<open>$n\<close> and \<open>$<\<close> stand for themselves, and the
  replacement template is expanded at \<open>$$\<close> (a dollar sign), \<open>$&\<close> (the matched text),
  \<open>$`\<close> (the text before the match) and \<open>$'\<close> (the text after the match).
\<close>

fun GetSubstitution :: "string \<Rightarrow> string \<Rightarrow> string \<Rightarrow> string \<Rightarrow> string" where
  "GetSubstitution matched before after [] = []"
| "GetSubstitution matched before after [c] = [c]"
| "GetSubstitution matched before after (c # d # ds) =
     (if c = CHR ''$'' \<and> d = CHR ''$'' then CHR ''$'' # GetSubstitution matched before after ds
      else if c = CHR ''$'' \<and> d = CHR ''&'' then matched @ GetSubstitution matched before after ds
      else if c = CHR ''$'' \<and> d = CHR 0x60 then before @ GetSubstitution matched before after ds
      else if c = CHR ''$'' \<and> d = CHR 0x27 then after @ GetSubstitution matched before after ds
      else c # GetSubstitution matched before after (d # ds))"

text \<open>\<open>s.replace(searchValue, replaceValue)\<close>, both arguments strings.\<close>

definition replace :: "string \<Rightarrow> string \<Rightarrow> string \<Rightarrow> string" where
  "replace s searchValue replaceValue =
     (case indexOfSplit searchValue s of
        None \<Rightarrow> s
      | Some (before, after) \<Rightarrow>
          before @ GetSubstitution searchValue before after replaceValue @ after)"

section \<open>Data model (types.ts)\<close>

record ImprovementSuggestion =
  originalText :: string
  suggestedRewrite :: string
  suggestionType :: string

text \<open>
  \<open>Job\<close>. The field \<open>id\<close> of the source is \<open>jobId\<close> here. The type of an analysis
  is a parameter: the application stores whatever the Analysis Client resolves to.
  \<open>analyzedAt\<close> holds the clock reading (milliseconds since the epoch) whose ISO rendering
  the source stores: \<open>new Date().toISOString()\<close> writes it and
  \<open>new Date(s).getTime()\<close> reads it back; \<open>None\<close> is the absent property. A string
  that is not a date, which no handler writes, is outside the model.
\<close>

record 'a Job =
  jobId :: string
  url :: string
  title :: string
  company :: string
  description :: string
  isFetching :: bool
  isLoading :: bool
  error :: "string option"
  analysis :: "'a option"
  analyzedAt :: "int option"

text \<open>
  \<open>Partial<Job>\<close>: each property is either absent (\<open>None\<close>) or present with a value;
  for a nullable property the value may be \<open>null\<close> (\<open>Some None\<close>).
\<close>

record 'a JobPartial =
  idP :: "string option"
  urlP :: "string option"
  titleP :: "string option"
  companyP :: "string option"
  descriptionP :: "string option"
  isFetchingP :: "bool option"
  isLoadingP :: "bool option"
  errorP :: "string option option"
  analysisP :: "'a option option"
  analyzedAtP :: "int option option"

definition noUpdates :: "'a JobPartial" where
  "noUpdates = \<lparr>idP = None, urlP = None, titleP = None, companyP = None,
     descriptionP = None, isFetchingP = None, isLoadingP = None, errorP = None,
     analysisP = None, analyzedAtP = None\<rparr>"

text \<open>One property of an object spread \<open>{ ...j, ...updates }\<close>.\<close>

definition override :: "'b option \<Rightarrow> 'b \<Rightarrow> 'b" where
  "override u old = (case u of None \<Rightarrow> old | Some v \<Rightarrow> v)"

definition spread :: "'a Job \<Rightarrow> 'a JobPartial \<Rightarrow> 'a Job" where
  "spread j updates =
     \<lparr>jobId = override (idP updates) (jobId j),
      url = override (urlP updates) (url j),
      title = override (titleP updates) (title j),
      company = override (companyP updates) (company j),
      description = override (descriptionP updates) (description j),
      isFetching = override (isFetchingP updates) (isFetching j),
      isLoading = override (isLoadingP updates) (isLoading j),
      error = override (errorP updates) (error j),
      analysis = override (analysisP updates) (analysis j),
      analyzedAt = override (analyzedAtP updates) (analyzedAt j)\<rparr>"

record JobListing =
  listingTitle :: string
  listingCompany :: string
  listingUrl :: string
  snippet :: string

record HiringCafeJob =
  cafeId :: string
  company_name :: string
  cafeTitle :: string
  cafeDescription :: string
  location :: string
  cafeUrl :: string
  tags :: "string list"
  company_logo_url :: string
  posted_at :: string

text \<open>
  \<open>SavedResume\<close>. The field \<open>_id\<close> of the source is \<open>resumeId\<close> here; \<open>savedAt\<close>
  is the clock reading whose ISO rendering the source stores, as for \<open>analyzedAt\<close>.
\<close>

record SavedResume =
  resumeId :: string
  name :: string
  content :: string
  jobDescription :: string
  savedAt :: int

section \<open>Array.prototype.sort\<close>

text \<open>
  \<open>xs.sort(cmp)\<close> is stable, and \<open>a\<close> is placed before \<open>b\<close> when \<open>cmp(a, b) < 0\<close>.
  For a consistent comparator the result is determined: it is the stable sorted
  permutation, which the insertion sort below computes.
\<close>

fun insertBy :: "('b \<Rightarrow> 'b \<Rightarrow> int) \<Rightarrow> 'b \<Rightarrow> 'b list \<Rightarrow> 'b list" where
  "insertBy cmp x [] = [x]"
| "insertBy cmp x (y # ys) = (if cmp x y \<le> 0 then x # y # ys else y # insertBy cmp x ys)"

definition sortBy :: "('b \<Rightarrow> 'b \<Rightarrow> int) \<Rightarrow> 'b list \<Rightarrow> 'b list" where
  "sortBy cmp xs = foldr (insertBy cmp) xs []"

section \<open>Job collection manager (App.tsx)\<close>

datatype View = listings | search | resumes | agencies | hiringCafe

text \<open>
  A request that has been sent and has not settled yet. \<open>AnalyzeCall id resume description\<close>
  is the call \<open>analyzeJobFit(resume, job.description)\<close> of \<open>handleAnalyzeJob(id)\<close>;
  \<open>FetchCall id url\<close> is the call \<open>fetchJobDescriptionFromUrl(job.url)\<close> of
  \<open>handleFetchDescription(id)\<close>; \<open>SearchFetchCall id url\<close> is the one of
  \<open>handleAddJobFromSearch\<close>.
\<close>

datatype request =
    AnalyzeCall string string string
  | FetchCall string string
  | SearchFetchCall string string

text \<open>
  The state of the \<open>App\<close> component that its handlers read and write, and the requests
  in flight. (The three modal flags take no part in any handler below.)
\<close>

record 'a App =
  view :: View
  resume :: string
  jobs :: "'a Job list"
  activeSuggestion :: "ImprovementSuggestion option"
  inFlight :: "request list"

definition initialApp :: "string \<Rightarrow> 'a App" where
  "initialApp templateResumeContent =
     \<lparr>view = listings, resume = templateResumeContent, jobs = [],
      activeSuggestion = None, inFlight = []\<rparr>"

text \<open>\<open>handleAddJob\<close>; \<open>uuid\<close> is the value that \<open>uuidv4()\<close> returns.\<close>

definition newJob :: "string \<Rightarrow> 'a Job" where
  "newJob uuid =
     \<lparr>jobId = uuid, url = '''', title = ''New Job Listing'', company = ''Company Name'',
      description = '''', isFetching = False, isLoading = False, error = None,
      analysis = None, analyzedAt = None\<rparr>"

definition handleAddJob :: "string \<Rightarrow> 'a Job list \<Rightarrow> 'a Job list" where
  "handleAddJob uuid prev = newJob uuid # prev"

text \<open>\<open>handleUpdateJob\<close>: \<open>jobs.map(j => (j.id === id ? { ...j, ...updates } : j))\<close>.\<close>

definition handleUpdateJob :: "string \<Rightarrow> 'a JobPartial \<Rightarrow> 'a Job list \<Rightarrow> 'a Job list" where
  "handleUpdateJob i updates js = map (\<lambda>j. if jobId j = i then spread j updates else j) js"

definition handleRemoveJob :: "string \<Rightarrow> 'a Job list \<Rightarrow> 'a Job list" where
  "handleRemoveJob i js = filter (\<lambda>j. jobId j \<noteq> i) js"

text \<open>\<open>handleAddJobFromSearch\<close>, up to the start of its request.\<close>

definition handleAddJobFromSearch :: "string \<Rightarrow> JobListing \<Rightarrow> 'a App \<Rightarrow> 'a App" where
  "handleAddJobFromSearch uuid listing s =
     s\<lparr>view := listings,
       jobs := \<lparr>jobId = uuid, url = listingUrl listing, title = listingTitle listing,
                company = listingCompany listing, description = ''Fetching description...'',
                isFetching = True, isLoading = False, error = None, analysis = None,
                analyzedAt = None\<rparr> # jobs s,
       inFlight := inFlight s @ [SearchFetchCall uuid (listingUrl listing)]\<rparr>"

text \<open>Its continuation: the request resolved with a description, or was rejected.\<close>

definition handleAddJobFromSearch_then :: "string \<Rightarrow> string \<Rightarrow> 'a App \<Rightarrow> 'a App" where
  "handleAddJobFromSearch_then i text s =
     s\<lparr>jobs := handleUpdateJob i
        (noUpdates\<lparr>descriptionP := Some text, isFetchingP := Some False\<rparr>) (jobs s)\<rparr>"

definition handleAddJobFromSearch_catch :: "string \<Rightarrow> string \<Rightarrow> 'a App \<Rightarrow> 'a App" where
  "handleAddJobFromSearch_catch i message s =
     s\<lparr>jobs := handleUpdateJob i
        (noUpdates\<lparr>errorP := Some (Some message), isFetchingP := Some False,
           descriptionP := Some ''Failed to fetch job description. Please paste it manually.''\<rparr>)
        (jobs s)\<rparr>"

definition handleAddJobFromCafe :: "string \<Rightarrow> HiringCafeJob \<Rightarrow> 'a App \<Rightarrow> 'a App" where
  "handleAddJobFromCafe uuid listing s =
     s\<lparr>view := listings,
       jobs := \<lparr>jobId = uuid, url = cafeUrl listing, title = cafeTitle listing,
                company = company_name listing, description = cafeDescription listing,
                isFetching = False, isLoading = False, error = None, analysis = None,
                analyzedAt = None\<rparr> # jobs s\<rparr>"

text \<open>
  \<open>handleFetchDescription\<close>, up to the start of its request: the guard
  \<open>if (!job || !job.url) return\<close>, the update, and the call. The handler reads the
  \<open>jobs\<close> (and, below, the \<open>resume\<close>) of the render it was created in; the model takes
  that to be the current state. The updates themselves go through \<open>setJobs\<close> with a
  function, so they always act on the current collection.
\<close>

definition handleFetchDescription :: "string \<Rightarrow> 'a App \<Rightarrow> 'a App" where
  "handleFetchDescription i s =
     (case find (\<lambda>j. jobId j = i) (jobs s) of
        None \<Rightarrow> s
      | Some job \<Rightarrow>
          if url job = [] then s
          else s\<lparr>jobs := handleUpdateJob i
                   (noUpdates\<lparr>isFetchingP := Some True, errorP := Some None\<rparr>) (jobs s),
                 inFlight := inFlight s @ [FetchCall i (url job)]\<rparr>)"

definition handleFetchDescription_then :: "string \<Rightarrow> string \<Rightarrow> 'a App \<Rightarrow> 'a App" where
  "handleFetchDescription_then i text s =
     s\<lparr>jobs := handleUpdateJob i
        (noUpdates\<lparr>descriptionP := Some text, isFetchingP := Some False\<rparr>) (jobs s)\<rparr>"

definition handleFetchDescription_catch :: "string \<Rightarrow> string \<Rightarrow> 'a App \<Rightarrow> 'a App" where
  "handleFetchDescription_catch i message s =
     s\<lparr>jobs := handleUpdateJob i
        (noUpdates\<lparr>errorP := Some (Some message), isFetchingP := Some False\<rparr>) (jobs s)\<rparr>"

text \<open>
  \<open>handleAnalyzeJob\<close>, up to the start of its request: the guard
  \<open>if (!job || !resume.trim() || !job.description.trim()) return\<close>, the update, and the
  call.
\<close>

definition handleAnalyzeJob :: "string \<Rightarrow> 'a App \<Rightarrow> 'a App" where
  "handleAnalyzeJob i s =
     (case find (\<lambda>j. jobId j = i) (jobs s) of
        None \<Rightarrow> s
      | Some job \<Rightarrow>
          if trim (resume s) = [] \<or> trim (description job) = [] then s
          else s\<lparr>jobs := handleUpdateJob i
                   (noUpdates\<lparr>isLoadingP := Some True, errorP := Some None\<rparr>) (jobs s),
                 inFlight := inFlight s @ [AnalyzeCall i (resume s) (description job)]\<rparr>)"

text \<open>
  Its continuation; \<open>now\<close> is the clock reading of \<open>new Date()\<close> at that moment.
\<close>

definition handleAnalyzeJob_then :: "string \<Rightarrow> 'a \<Rightarrow> int \<Rightarrow> 'a App \<Rightarrow> 'a App" where
  "handleAnalyzeJob_then i result now s =
     s\<lparr>jobs := handleUpdateJob i
        (noUpdates\<lparr>analysisP := Some (Some result), isLoadingP := Some False,
           analyzedAtP := Some (Some now)\<rparr>) (jobs s)\<rparr>"

definition handleAnalyzeJob_catch :: "string \<Rightarrow> string \<Rightarrow> 'a App \<Rightarrow> 'a App" where
  "handleAnalyzeJob_catch i message s =
     s\<lparr>jobs := handleUpdateJob i
        (noUpdates\<lparr>errorP := Some (Some message), isLoadingP := Some False\<rparr>) (jobs s)\<rparr>"

definition handleLoadResume :: "string \<Rightarrow> 'a App \<Rightarrow> 'a App" where
  "handleLoadResume content' s = s\<lparr>resume := content', view := listings\<rparr>"

text \<open>
  \<open>handleApplySuggestion\<close> applies
  \<open>current => current.replace(suggestion.originalText, suggestion.suggestedRewrite)\<close>
  to the working resume and closes the suggestion.
\<close>

definition applySuggestion :: "string \<Rightarrow> ImprovementSuggestion \<Rightarrow> string" where
  "applySuggestion current suggestion =
     replace current (originalText suggestion) (suggestedRewrite suggestion)"

definition handleApplySuggestion :: "ImprovementSuggestion \<Rightarrow> 'a App \<Rightarrow> 'a App" where
  "handleApplySuggestion suggestion s =
     s\<lparr>resume := applySuggestion (resume s) suggestion, activeSuggestion := None\<rparr>"

text \<open>
  What can happen to the component: a user action calling one of the handlers (the job
  card edits only \<open>url\<close> and \<open>description\<close>), or a request in flight settling and its
  continuation running. A settling request must be in flight and is removed.
\<close>

datatype 'a event =
    AddJob string
  | EditUrl string string
  | EditDescription string string
  | AddJobFromSearch string JobListing
  | AddJobFromCafe string HiringCafeJob
  | RemoveJob string
  | FetchDescription string
  | AnalyzeJob string
  | SetResume string
  | LoadResume string
  | SelectSuggestion ImprovementSuggestion
  | CloseSuggestion
  | ApplySuggestion ImprovementSuggestion
  | FetchResolves request string
  | FetchRejects request string
  | AnalyzeResolves request 'a int
  | AnalyzeRejects request string

fun step :: "'a event \<Rightarrow> 'a App \<Rightarrow> 'a App option" where
  "step (AddJob uuid) s = Some (s\<lparr>jobs := handleAddJob uuid (jobs s)\<rparr>)"
| "step (EditUrl i v) s =
     Some (s\<lparr>jobs := handleUpdateJob i (noUpdates\<lparr>urlP := Some v\<rparr>) (jobs s)\<rparr>)"
| "step (EditDescription i v) s =
     Some (s\<lparr>jobs := handleUpdateJob i (noUpdates\<lparr>descriptionP := Some v\<rparr>) (jobs s)\<rparr>)"
| "step (AddJobFromSearch uuid listing) s = Some (handleAddJobFromSearch uuid listing s)"
| "step (AddJobFromCafe uuid listing) s = Some (handleAddJobFromCafe uuid listing s)"
| "step (RemoveJob i) s = Some (s\<lparr>jobs := handleRemoveJob i (jobs s)\<rparr>)"
| "step (FetchDescription i) s = Some (handleFetchDescription i s)"
| "step (AnalyzeJob i) s = Some (handleAnalyzeJob i s)"
| "step (SetResume r) s = Some (s\<lparr>resume := r\<rparr>)"
| "step (LoadResume r) s = Some (handleLoadResume r s)"
| "step (SelectSuggestion g) s = Some (s\<lparr>activeSuggestion := Some g\<rparr>)"
| "step CloseSuggestion s = Some (s\<lparr>activeSuggestion := None\<rparr>)"
| "step (ApplySuggestion g) s = Some (handleApplySuggestion g s)"
| "step (FetchResolves rq text) s =
     (if rq \<notin> set (inFlight s) then None
      else (case rq of
              FetchCall i u \<Rightarrow>
                Some (handleFetchDescription_then i text (s\<lparr>inFlight := remove1 rq (inFlight s)\<rparr>))
            | SearchFetchCall i u \<Rightarrow>
                Some (handleAddJobFromSearch_then i text (s\<lparr>inFlight := remove1 rq (inFlight s)\<rparr>))
            | AnalyzeCall i r d \<Rightarrow> None))"
| "step (FetchRejects rq message) s =
     (if rq \<notin> set (inFlight s) then None
      else (case rq of
              FetchCall i u \<Rightarrow>
                Some (handleFetchDescription_catch i message
                        (s\<lparr>inFlight := remove1 rq (inFlight s)\<rparr>))
            | SearchFetchCall i u \<Rightarrow>
                Some (handleAddJobFromSearch_catch i message
                        (s\<lparr>inFlight := remove1 rq (inFlight s)\<rparr>))
            | AnalyzeCall i r d \<Rightarrow> None))"
| "step (AnalyzeResolves rq result now) s =
     (if rq \<notin> set (inFlight s) then None
      else (case rq of
              AnalyzeCall i r d \<Rightarrow>
                Some (handleAnalyzeJob_then i result now
                        (s\<lparr>inFlight := remove1 rq (inFlight s)\<rparr>))
            | FetchCall i u \<Rightarrow> None
            | SearchFetchCall i u \<Rightarrow> None))"
| "step (AnalyzeRejects rq message) s =
     (if rq \<notin> set (inFlight s) then None
      else (case rq of
              AnalyzeCall i r d \<Rightarrow>
                Some (handleAnalyzeJob_catch i message
                        (s\<lparr>inFlight := remove1 rq (inFlight s)\<rparr>))
            | FetchCall i u \<Rightarrow> None
            | SearchFetchCall i u \<Rightarrow> None))"

fun run :: "'a event list \<Rightarrow> 'a App \<Rightarrow> 'a App option" where
  "run [] s = Some s"
| "run (e # es) s = (case step e s of None \<Rightarrow> None | Some s' \<Rightarrow> run es s')"

section \<open>Sorting the job listing (JobListingsPage.tsx, sortedJobs)\<close>









section \<open>The fetch API\<close>

text \<open>
  What \<open>await fetch(...)\<close> gives: the promise is rejected (a network failure; the
  runtime's \<open>TypeError\<close> with its message), or it resolves with a response of any status.
  \<open>resp.ok\<close> is true for the statuses 200 to 299.
\<close>

record Response =
  status :: nat
  statusText :: string
  body :: string

datatype fetched = Rejected string | Resolved Response

definition ok :: "Response \<Rightarrow> bool" where
  "ok resp = (200 \<le> status resp \<and> status resp \<le> 299)"

text \<open>\<open>body || resp.statusText\<close>: the empty string is falsy.\<close>

definition orText :: "string \<Rightarrow> string \<Rightarrow> string" where
  "orText a b = (if a = [] then b else a)"

text \<open>The decimal digits of a number in a template literal.\<close>

fun digitsFuel :: "nat \<Rightarrow> nat \<Rightarrow> string" where
  "digitsFuel 0 n = []"
| "digitsFuel (Suc k) n =
     (if n < 10 then [char_of (48 + n)]
      else digitsFuel k (n div 10) @ [char_of (48 + n mod 10)])"

definition showNat :: "nat \<Rightarrow> string" where
  "showNat n = digitsFuel (Suc n) n"

section \<open>Analysis client and description fetcher (services/geminiService.ts)\<close>




text \<open>
  \<open>fetchJobDescriptionFromUrl\<close>. \<open>readText\<close> stands for
  \<open>(await resp.json()).text || ''\<close>: the \<open>text\<close> property of the parsed body, or the
  empty string; \<open>Inl message\<close> when the runtime throws on the way (the body is not
  JSON, it is \<open>null\<close>, or its \<open>text\<close> is not a string and cannot be trimmed).
\<close>

definition fetchJobDescriptionFromUrl ::
  "(string \<Rightarrow> string + string) \<Rightarrow> fetched \<Rightarrow> string + string" where
  "fetchJobDescriptionFromUrl readText outcome =
     (case outcome of
        Rejected message \<Rightarrow> Inl message
      | Resolved resp \<Rightarrow>
          if \<not> ok resp
          then Inl (''Failed to fetch job description: '' @ orText (body resp) (statusText resp))
          else (case readText (body resp) of
                  Inl message \<Rightarrow> Inl message
                | Inr text \<Rightarrow> Inr (trim text)))"

section \<open>Resume store client (services/apiService.ts)\<close>

text \<open>
  The local-storage slot \<open>savedResumes_db_mock\<close>: \<open>None\<close> when it has never been
  written (\<open>getItem\<close> gives \<open>null\<close>), otherwise the array whose JSON text it holds.
\<close>

type_synonym storage = "SavedResume list option"

text \<open>
  \<open>seedInitialData\<close>; \<open>uuid\<close> and \<open>now\<close> are what \<open>uuidv4()\<close> and \<open>new Date()\<close>
  give, \<open>templateResumeContent\<close> is the constant of \<open>data/defaultData\<close>.
\<close>

definition seedInitialData :: "string \<Rightarrow> int \<Rightarrow> string \<Rightarrow> storage" where
  "seedInitialData uuid now templateResumeContent =
     Some [\<lparr>resumeId = uuid, name = ''General Resume Template'',
            content = templateResumeContent, jobDescription = '''', savedAt = now\<rparr>]"

text \<open>\<open>readLocalResumes\<close> returns the records and leaves the slot seeded.\<close>

definition readLocalResumes ::
  "string \<Rightarrow> int \<Rightarrow> string \<Rightarrow> storage \<Rightarrow> SavedResume list \<times> storage" where
  "readLocalResumes uuid now templateResumeContent store =
     (case store of
        None \<Rightarrow>
          (let store' = seedInitialData uuid now templateResumeContent in
           (case store' of None \<Rightarrow> [] | Some rs \<Rightarrow> rs, store'))
      | Some rs \<Rightarrow> (rs, store))"

definition writeLocalResumes :: "SavedResume list \<Rightarrow> storage" where
  "writeLocalResumes rs = Some rs"

text \<open>
  \<open>tryFetchJson\<close>; \<open>decode\<close> stands for \<open>resp.json()\<close> read at the type \<open>T\<close>,
  \<open>Inl message\<close> when it throws.
\<close>

definition tryFetchJson :: "(string \<Rightarrow> string + 'b) \<Rightarrow> fetched \<Rightarrow> string + 'b" where
  "tryFetchJson decode outcome =
     (case outcome of
        Rejected message \<Rightarrow> Inl message
      | Resolved resp \<Rightarrow>
          if \<not> ok resp
          then Inl (''HTTP '' @ showNat (status resp) @ '' '' @ statusText resp)
          else decode (body resp))"

text \<open>
  \<open>getResumes\<close>: the result and the slot afterwards. The comparator is
  \<open>new Date(b.savedAt).getTime() - new Date(a.savedAt).getTime()\<close>.
\<close>

definition getResumes ::
  "(string \<Rightarrow> string + SavedResume list) \<Rightarrow> fetched \<Rightarrow> string \<Rightarrow> int \<Rightarrow> string \<Rightarrow> storage
     \<Rightarrow> SavedResume list \<times> storage" where
  "getResumes decode outcome uuid now templateResumeContent store =
     (case tryFetchJson decode outcome of
        Inr rs \<Rightarrow> (rs, store)
      | Inl err \<Rightarrow>
          (let (resumes', store') = readLocalResumes uuid now templateResumeContent store in
           (sortBy (\<lambda>a b. savedAt b - savedAt a) resumes', store')))"

text \<open>
  \<open>deleteResume\<close>: \<open>Inr True\<close> is \<open>{ success: true }\<close>, \<open>Inl message\<close> the thrown
  \<open>Error\<close>. The request is a plain \<open>fetch\<close>: whatever response arrives, of any status,
  the function returns success; only a rejected \<open>fetch\<close> reaches the local cache.
\<close>

definition deleteResume ::
  "fetched \<Rightarrow> string \<Rightarrow> string \<Rightarrow> int \<Rightarrow> string \<Rightarrow> storage \<Rightarrow> (string + bool) \<times> storage" where
  "deleteResume outcome i uuid now templateResumeContent store =
     (case outcome of
        Resolved resp \<Rightarrow> (Inr True, store)
      | Rejected err \<Rightarrow>
          (let (existing, store') = readLocalResumes uuid now templateResumeContent store;
               updated = filter (\<lambda>r. resumeId r \<noteq> i) existing in
           if length updated = length existing
           then (Inl (''Resume with ID '' @ i @ '' not found''), store')
           else (Inr True, writeLocalResumes updated)))"

section \<open>Properties of the string operations\<close>

lemma indexOfSplit_Some:
  "indexOfSplit pat s = Some (before, after) \<Longrightarrow> s = before @ pat @ after"
proof (induction s arbitrary: before)
  case Nil
  then show ?case by (simp split: if_splits)
next
  case (Cons c cs)
  show ?case
  proof (cases "startsWith (c # cs) pat")
    case True
    with Cons.prems have "before = []" and "after = drop (length pat) (c # cs)"
      by simp_all
    moreover from True have "take (length pat) (c # cs) = pat"
      by (simp add: startsWith_def)
    ultimately show ?thesis
      by (metis append_Nil append_take_drop_id)
  next
    case False
    with Cons.prems obtain b where b: "indexOfSplit pat cs = Some (b, after)" "before = c # b"
      by (auto split: option.splits)
    from Cons.IH [OF b(1)] b(2) show ?thesis by simp
  qed
qed

lemma indexOfSplit_None:
  "indexOfSplit pat s = None \<Longrightarrow> s \<noteq> xs @ pat @ ys"
proof (induction s arbitrary: xs)
  case Nil
  then show ?case by (auto split: if_splits)
next
  case (Cons c cs)
  from Cons.prems have ns: "\<not> startsWith (c # cs) pat" and rest: "indexOfSplit pat cs = None"
    by (auto split: if_splits option.splits)
  show ?case
  proof (cases xs)
    case Nil
    with ns show ?thesis by (auto simp: startsWith_def)
  next
    case (Cons x xs')
    with Cons.IH [OF rest, of xs'] show ?thesis by auto
  qed
qed

text \<open>The occurrence found is the leftmost one: the pattern starts nowhere earlier.\<close>

lemma indexOfSplit_first:
  "indexOfSplit pat s = Some (before, after) \<Longrightarrow> n < length before \<Longrightarrow>
     \<not> startsWith (drop n s) pat"
proof (induction s arbitrary: before n)
  case Nil
  then show ?case by (simp split: if_splits)
next
  case (Cons c cs)
  show ?case
  proof (cases "startsWith (c # cs) pat")
    case True
    with Cons.prems show ?thesis by simp
  next
    case False
    with Cons.prems obtain b where b: "indexOfSplit pat cs = Some (b, after)" "before = c # b"
      by (auto split: option.splits)
    show ?thesis
    proof (cases n)
      case 0
      with False show ?thesis by simp
    next
      case (Suc m)
      with Cons.prems b have "m < length b" by simp
      from Cons.IH [OF b(1) this] Suc show ?thesis by simp
    qed
  qed
qed

lemma GetSubstitution_literal:
  "CHR ''$'' \<notin> set template \<Longrightarrow> GetSubstitution matched before after template = template"
  by (induction matched before after template rule: GetSubstitution.induct) auto

section \<open>Applying a suggestion\<close>

lemma applySuggestion_absent:
  "\<nexists>xs ys. current = xs @ originalText suggestion @ ys \<Longrightarrow>
     applySuggestion current suggestion = current"
  by (auto simp: applySuggestion_def replace_def split: option.splits
      dest: indexOfSplit_Some)

lemma applySuggestion_literal:
  assumes "CHR ''$'' \<notin> set (suggestedRewrite suggestion)"
    and "current = xs @ originalText suggestion @ ys"
  shows "\<exists>before after.
           current = before @ originalText suggestion @ after \<and>
           (\<forall>n < length before. \<not> startsWith (drop n current) (originalText suggestion)) \<and>
           applySuggestion current suggestion = before @ suggestedRewrite suggestion @ after \<and>
           int (length (applySuggestion current suggestion)) =
             int (length current) - int (length (originalText suggestion))
               + int (length (suggestedRewrite suggestion))"
proof (cases "indexOfSplit (originalText suggestion) current")
  case None
  from indexOfSplit_None [OF None] assms(2) show ?thesis by blast
next
  case (Some p)
  obtain before after where p: "p = (before, after)" by (cases p)
  from Some p have cur: "current = before @ originalText suggestion @ after"
    by (simp add: indexOfSplit_Some)
  from Some p have first:
    "\<forall>n < length before. \<not> startsWith (drop n current) (originalText suggestion)"
    by (blast dest: indexOfSplit_first)
  from Some p assms(1)
  have res: "applySuggestion current suggestion = before @ suggestedRewrite suggestion @ after"
    by (simp add: applySuggestion_def replace_def GetSubstitution_literal)
  have "int (length (applySuggestion current suggestion)) =
          int (length current) - int (length (originalText suggestion))
            + int (length (suggestedRewrite suggestion))"
    by (subst res, subst cur) simp
  with cur first res show ?thesis by blast
qed

text \<open>
  C1. Claimed: applying a suggestion replaces the first occurrence of \<open>originalText\<close> by
  \<open>suggestedRewrite\<close>, so that the result is as long as the resume, minus the original
  text, plus the rewrite. The source calls \<open>String.prototype.replace\<close> with the rewrite as
  the replacement template, which expands \<open>$$\<close>: on the resume \<open>Cut costs.\<close> the rewrite
  \<open>Saved $$2M.\<close> is inserted as \<open>Saved $2M.\<close>, one code unit shorter than the claim says.
\<close>

theorem applySuggestion_expands_dollar:
  "applySuggestion ''Cut costs.''
     \<lparr>originalText = ''Cut costs.'', suggestedRewrite = ''Saved $$2M.'',
      suggestionType = ''Add Metrics''\<rparr> = ''Saved $2M.''
   \<and> int (length (applySuggestion ''Cut costs.''
     \<lparr>originalText = ''Cut costs.'', suggestedRewrite = ''Saved $$2M.'',
      suggestionType = ''Add Metrics''\<rparr>))
     \<noteq> int (length ''Cut costs.'') - int (length ''Cut costs.'') + int (length ''Saved $$2M.'')"
  by (simp add: applySuggestion_def replace_def startsWith_def)

section \<open>Updating and adding jobs\<close>

lemma spread_fields:
  "jobId (spread j u) = (case idP u of None \<Rightarrow> jobId j | Some v \<Rightarrow> v)"
  "url (spread j u) = (case urlP u of None \<Rightarrow> url j | Some v \<Rightarrow> v)"
  "title (spread j u) = (case titleP u of None \<Rightarrow> title j | Some v \<Rightarrow> v)"
  "company (spread j u) = (case companyP u of None \<Rightarrow> company j | Some v \<Rightarrow> v)"
  "description (spread j u) = (case descriptionP u of None \<Rightarrow> description j | Some v \<Rightarrow> v)"
  "isFetching (spread j u) = (case isFetchingP u of None \<Rightarrow> isFetching j | Some v \<Rightarrow> v)"
  "isLoading (spread j u) = (case isLoadingP u of None \<Rightarrow> isLoading j | Some v \<Rightarrow> v)"
  "error (spread j u) = (case errorP u of None \<Rightarrow> error j | Some v \<Rightarrow> v)"
  "analysis (spread j u) = (case analysisP u of None \<Rightarrow> analysis j | Some v \<Rightarrow> v)"
  "analyzedAt (spread j u) = (case analyzedAtP u of None \<Rightarrow> analyzedAt j | Some v \<Rightarrow> v)"
  by (simp_all add: spread_def override_def)

lemma handleUpdateJob_absent:
  "\<forall>j\<in>set js. jobId j \<noteq> i \<Longrightarrow> handleUpdateJob i updates js = js"
  unfolding handleUpdateJob_def by (induction js) auto

text \<open>
  C8. \<open>handleUpdateJob id updates\<close> keeps the length and the order of the collection;
  a job whose id is \<open>id\<close> becomes the spread of the job and the updates, every other job
  stays as it is; when no job has that id (as for the late response for a removed job) the
  collection is unchanged; and in the spread every property is the one given in the
  updates if it is given there, and the job's own otherwise.
\<close>

theorem handleUpdateJob_merges:
  "length (handleUpdateJob i updates js) = length js
   \<and> (\<forall>k < length js.
        handleUpdateJob i updates js ! k =
          (if jobId (js ! k) = i then spread (js ! k) updates else js ! k))
   \<and> ((\<forall>j\<in>set js. jobId j \<noteq> i) \<longrightarrow> handleUpdateJob i updates js = js)
   \<and> jobId (spread j updates) = (case idP updates of None \<Rightarrow> jobId j | Some v \<Rightarrow> v)
   \<and> url (spread j updates) = (case urlP updates of None \<Rightarrow> url j | Some v \<Rightarrow> v)
   \<and> title (spread j updates) = (case titleP updates of None \<Rightarrow> title j | Some v \<Rightarrow> v)
   \<and> company (spread j updates) = (case companyP updates of None \<Rightarrow> company j | Some v \<Rightarrow> v)
   \<and> description (spread j updates) =
        (case descriptionP updates of None \<Rightarrow> description j | Some v \<Rightarrow> v)
   \<and> isFetching (spread j updates) =
        (case isFetchingP updates of None \<Rightarrow> isFetching j | Some v \<Rightarrow> v)
   \<and> isLoading (spread j updates) =
        (case isLoadingP updates of None \<Rightarrow> isLoading j | Some v \<Rightarrow> v)
   \<and> error (spread j updates) = (case errorP updates of None \<Rightarrow> error j | Some v \<Rightarrow> v)
   \<and> analysis (spread j updates) =
        (case analysisP updates of None \<Rightarrow> analysis j | Some v \<Rightarrow> v)
   \<and> analyzedAt (spread j updates) =
        (case analyzedAtP updates of None \<Rightarrow> analyzedAt j | Some v \<Rightarrow> v)"
proof -
  have "length (handleUpdateJob i updates js) = length js"
    by (simp add: handleUpdateJob_def)
  moreover have "\<forall>k < length js.
        handleUpdateJob i updates js ! k =
          (if jobId (js ! k) = i then spread (js ! k) updates else js ! k)"
    by (simp add: handleUpdateJob_def)
  moreover have "(\<forall>j\<in>set js. jobId j \<noteq> i) \<longrightarrow> handleUpdateJob i updates js = js"
    by (simp add: handleUpdateJob_absent)
  ultimately show ?thesis
    by (simp only: spread_fields simp_thms)
qed

text \<open>
  The theorem at the collection of two new jobs \<open>b\<close> and \<open>a\<close>: updating the description
  of \<open>a\<close> changes that job only, and updating the absent id \<open>c\<close> changes nothing.
\<close>

theorem handleUpdateJob_merges_witness:
  "handleUpdateJob ''a'' (noUpdates\<lparr>descriptionP := Some ''Looking for a CRM expert.''\<rparr>)
     [newJob ''b'', newJob ''a'' :: unit Job] ! 1
     = (newJob ''a'')\<lparr>description := ''Looking for a CRM expert.''\<rparr>
   \<and> handleUpdateJob ''a'' (noUpdates\<lparr>descriptionP := Some ''Looking for a CRM expert.''\<rparr>)
     [newJob ''b'', newJob ''a'' :: unit Job] ! 0 = newJob ''b''
   \<and> handleUpdateJob ''c'' (noUpdates\<lparr>descriptionP := Some ''Looking for a CRM expert.''\<rparr>)
     [newJob ''b'', newJob ''a'' :: unit Job] = [newJob ''b'', newJob ''a'']"
proof -
  let ?u = "noUpdates\<lparr>descriptionP := Some ''Looking for a CRM expert.''\<rparr> :: unit JobPartial"
  let ?js = "[newJob ''b'', newJob ''a'' :: unit Job]"
  have absent: "\<forall>j\<in>set ?js. jobId j \<noteq> ''c''"
    by (simp add: newJob_def)
  from handleUpdateJob_merges [of "''c''" ?u ?js] absent
  have none: "handleUpdateJob ''c'' ?u ?js = ?js"
    by blast
  from handleUpdateJob_merges [of "''a''" ?u ?js]
  have "\<forall>k < length ?js. handleUpdateJob ''a'' ?u ?js ! k =
          (if jobId (?js ! k) = ''a'' then spread (?js ! k) ?u else ?js ! k)"
    by blast
  then have "handleUpdateJob ''a'' ?u ?js ! 1 =
          (if jobId (?js ! 1) = ''a'' then spread (?js ! 1) ?u else ?js ! 1)"
    and "handleUpdateJob ''a'' ?u ?js ! 0 =
          (if jobId (?js ! 0) = ''a'' then spread (?js ! 0) ?u else ?js ! 0)"
    by simp_all
  then have "handleUpdateJob ''a'' ?u ?js ! 1
      = (newJob ''a'')\<lparr>description := ''Looking for a CRM expert.''\<rparr>"
    and "handleUpdateJob ''a'' ?u ?js ! 0 = newJob ''b''"
    by (simp_all add: newJob_def spread_def override_def noUpdates_def)
  with none show ?thesis by simp
qed




section \<open>The guards of the two asynchronous handlers\<close>

lemma trim_empty_iff: "trim s = [] \<longleftrightarrow> list_all isWhiteSpace s"
proof
  assume "list_all isWhiteSpace s"
  then show "trim s = []"
    by (auto simp: trim_def list_all_iff dest: set_dropWhileD)
next
  assume "trim s = []"
  then have all: "\<forall>c\<in>set (dropWhile isWhiteSpace s). isWhiteSpace c"
    by (simp add: trim_def)
  have "dropWhile isWhiteSpace s = []"
  proof (rule ccontr)
    assume ne: "dropWhile isWhiteSpace s \<noteq> []"
    then have "\<not> isWhiteSpace (hd (dropWhile isWhiteSpace s))"
      by (rule hd_dropWhile)
    moreover from ne have "hd (dropWhile isWhiteSpace s) \<in> set (dropWhile isWhiteSpace s)"
      by (rule hd_in_set)
    ultimately show False using all by blast
  qed
  then show "list_all isWhiteSpace s"
    by (simp add: list_all_iff)
qed

lemma trim_whitespace_only: "list_all isWhiteSpace s \<Longrightarrow> trim s = []"
  by (simp add: trim_empty_iff)

lemma find_absent: "\<forall>j\<in>set js. jobId j \<noteq> i \<Longrightarrow> find (\<lambda>j. jobId j = i) js = None"
  by (simp add: find_None_iff)

text \<open>
  C10. When no job of the collection has the id, or the working resume is empty or
  whitespace only, or the description of the job found is empty or whitespace only,
  \<open>handleAnalyzeJob\<close> returns the state it was given: the same jobs, the same resume and
  the same requests in flight, so no request was sent. Likewise \<open>handleFetchDescription\<close>
  when no job has the id or the job found has an empty url.
\<close>

theorem guards_return_without_request:
  "((\<forall>j\<in>set (jobs s). jobId j \<noteq> i)
      \<or> list_all isWhiteSpace (resume s)
      \<or> (\<exists>job. find (\<lambda>j. jobId j = i) (jobs s) = Some job
            \<and> list_all isWhiteSpace (description job))
     \<longrightarrow> handleAnalyzeJob i s = s \<and> step (AnalyzeJob i) s = Some s)
   \<and> ((\<forall>j\<in>set (jobs s). jobId j \<noteq> i)
      \<or> (\<exists>job. find (\<lambda>j. jobId j = i) (jobs s) = Some job \<and> url job = '''')
     \<longrightarrow> handleFetchDescription i s = s \<and> step (FetchDescription i) s = Some s)"
proof -
  have a: "handleAnalyzeJob i s = s"
    if "(\<forall>j\<in>set (jobs s). jobId j \<noteq> i)
      \<or> list_all isWhiteSpace (resume s)
      \<or> (\<exists>job. find (\<lambda>j. jobId j = i) (jobs s) = Some job
            \<and> list_all isWhiteSpace (description job))"
    using that
    by (auto simp: handleAnalyzeJob_def find_absent trim_whitespace_only split: option.splits)
  have f: "handleFetchDescription i s = s"
    if "(\<forall>j\<in>set (jobs s). jobId j \<noteq> i)
      \<or> (\<exists>job. find (\<lambda>j. jobId j = i) (jobs s) = Some job \<and> url job = '''')"
    using that
    by (auto simp: handleFetchDescription_def find_absent split: option.splits)
  from a f show ?thesis by simp
qed

text \<open>
  The theorem at an empty collection, at a resume of a space and a line feed, and at a new
  job, whose description and url are empty.
\<close>

theorem guards_return_without_request_witness:
  "handleAnalyzeJob ''a'' (initialApp ''Managed inbound calls.'' :: unit App)
     = initialApp ''Managed inbound calls.''
   \<and> handleAnalyzeJob ''a''
       ((initialApp [CHR 0x20, CHR 0x0A])\<lparr>jobs := [(newJob ''a'' :: unit Job)\<lparr>description := ''Looking for a CRM expert.''\<rparr>]\<rparr>)
     = (initialApp [CHR 0x20, CHR 0x0A])\<lparr>jobs := [(newJob ''a'')\<lparr>description := ''Looking for a CRM expert.''\<rparr>]\<rparr>
   \<and> handleAnalyzeJob ''a''
       ((initialApp ''Managed inbound calls.'')\<lparr>jobs := [newJob ''a'' :: unit Job]\<rparr>)
     = (initialApp ''Managed inbound calls.'')\<lparr>jobs := [newJob ''a'']\<rparr>
   \<and> handleFetchDescription ''a'' (initialApp ''Managed inbound calls.'' :: unit App)
     = initialApp ''Managed inbound calls.''
   \<and> handleFetchDescription ''a''
       ((initialApp ''Managed inbound calls.'')\<lparr>jobs := [newJob ''a'' :: unit Job]\<rparr>)
     = (initialApp ''Managed inbound calls.'')\<lparr>jobs := [newJob ''a'']\<rparr>"
proof -
  let ?s0 = "initialApp ''Managed inbound calls.'' :: unit App"
  let ?s1 = "(initialApp [CHR 0x20, CHR 0x0A])\<lparr>jobs := [(newJob ''a'' :: unit Job)\<lparr>description := ''Looking for a CRM expert.''\<rparr>]\<rparr> :: unit App"
  let ?s2 = "(initialApp ''Managed inbound calls.'')\<lparr>jobs := [newJob ''a'' :: unit Job]\<rparr> :: unit App"
  have h0: "\<forall>j\<in>set (jobs ?s0). jobId j \<noteq> ''a''"
    by (simp add: initialApp_def)
  have h1: "list_all isWhiteSpace (resume ?s1)"
    by (simp add: initialApp_def isWhiteSpace_def)
  have h2: "\<exists>job. find (\<lambda>j. jobId j = ''a'') (jobs ?s2) = Some job
      \<and> list_all isWhiteSpace (description job)"
    by (simp add: initialApp_def newJob_def)
  have h3: "\<exists>job. find (\<lambda>j. jobId j = ''a'') (jobs ?s2) = Some job \<and> url job = ''''"
    by (simp add: initialApp_def newJob_def)
  from guards_return_without_request [of ?s0 "''a''"] h0
  have "handleAnalyzeJob ''a'' ?s0 = ?s0" and "handleFetchDescription ''a'' ?s0 = ?s0"
    by blast+
  moreover from guards_return_without_request [of ?s1 "''a''"] h1
  have "handleAnalyzeJob ''a'' ?s1 = ?s1" by blast
  moreover from guards_return_without_request [of ?s2 "''a''"] h2 h3
  have "handleAnalyzeJob ''a'' ?s2 = ?s2" and "handleFetchDescription ''a'' ?s2 = ?s2"
    by blast+
  ultimately show ?thesis by simp
qed

section \<open>The lifecycle flags of a job\<close>









lemma spread_noUpdates_simps:
  "spread j (noUpdates\<lparr>isLoadingP := Some True, errorP := Some None\<rparr>)
     = j\<lparr>isLoading := True, error := None\<rparr>"
  "spread j (noUpdates\<lparr>isFetchingP := Some True, errorP := Some None\<rparr>)
     = j\<lparr>isFetching := True, error := None\<rparr>"
  "spread j (noUpdates\<lparr>analysisP := Some (Some result), isLoadingP := Some False,
       analyzedAtP := Some (Some now)\<rparr>)
     = j\<lparr>analysis := Some result, isLoading := False, analyzedAt := Some now\<rparr>"
  "spread j (noUpdates\<lparr>errorP := Some (Some message), isLoadingP := Some False\<rparr>)
     = j\<lparr>error := Some message, isLoading := False\<rparr>"
  "spread j (noUpdates\<lparr>errorP := Some (Some message), isFetchingP := Some False\<rparr>)
     = j\<lparr>error := Some message, isFetching := False\<rparr>"
  by (simp_all add: spread_def override_def noUpdates_def)



text \<open>
  The message of a failed \<open>fetchJobDescriptionFromUrl\<close> is not empty, as long as the
  messages that the runtime supplies (for a rejected \<open>fetch\<close>, for a body that cannot be
  read as JSON) are not.
\<close>

lemma fetchJobDescriptionFromUrl_message:
  assumes "fetchJobDescriptionFromUrl readText outcome = Inl message"
    and "\<forall>m. outcome = Rejected m \<longrightarrow> m \<noteq> ''''"
    and "\<forall>b m. readText b = Inl m \<longrightarrow> m \<noteq> ''''"
  shows "message \<noteq> ''''"
proof (cases outcome)
  case (Rejected m)
  with assms(1,2) show ?thesis
    by (simp add: fetchJobDescriptionFromUrl_def)
next
  case (Resolved resp)
  show ?thesis
  proof (cases "ok resp")
    case False
    with Resolved assms(1) show ?thesis
      by (auto simp: fetchJobDescriptionFromUrl_def)
  next
    case True
    with Resolved assms(1) have "readText (body resp) = Inl message"
      by (auto simp: fetchJobDescriptionFromUrl_def split: sum.splits)
    with assms(3) show ?thesis by blast
  qed
qed

text \<open>
  C6. For a job with a non-empty url whose description request fails with \<open>message\<close>,
  \<open>handleFetchDescription\<close> followed by its \<open>catch\<close> branch ends in a state where every
  job of that id has \<open>isFetching\<close> false and \<open>error\<close> set to the message, which is not
  empty; the description and every other field of the job, every other job, the resume
  and the requests in flight are as before the call. The messages that the runtime itself
  supplies are taken to be non-empty.
\<close>

theorem fetchDescription_failure:
  fixes s :: "'a App"
  assumes "find (\<lambda>j. jobId j = i) (jobs s) = Some job" and "url job \<noteq> ''''"
    and "fetchJobDescriptionFromUrl readText outcome = Inl message"
    and "\<forall>m. outcome = Rejected m \<longrightarrow> m \<noteq> ''''"
    and "\<forall>b m. readText b = Inl m \<longrightarrow> m \<noteq> ''''"
  shows "\<exists>s'. run [FetchDescription i, FetchRejects (FetchCall i (url job)) message] s = Some s'
     \<and> jobs s' = map (\<lambda>j. if jobId j = i then j\<lparr>error := Some message, isFetching := False\<rparr>
                            else j) (jobs s)
     \<and> message \<noteq> ''''
     \<and> resume s' = resume s \<and> view s' = view s \<and> activeSuggestion s' = activeSuggestion s
     \<and> mset (inFlight s') = mset (inFlight s)"
proof -
  let ?rq = "FetchCall i (url job)"
  let ?s1 = "s\<lparr>jobs := handleUpdateJob i
                   (noUpdates\<lparr>isFetchingP := Some True, errorP := Some None\<rparr>) (jobs s),
               inFlight := inFlight s @ [?rq]\<rparr>"
  let ?s2 = "handleFetchDescription_catch i message (?s1\<lparr>inFlight := remove1 ?rq (inFlight ?s1)\<rparr>)"
  from assms(1,2) have one: "step (FetchDescription i) s = Some ?s1"
    by (simp add: handleFetchDescription_def)
  have two: "step (FetchRejects ?rq message) ?s1 = Some ?s2"
    by simp
  from one two have run: "run [FetchDescription i, FetchRejects ?rq message] s = Some ?s2"
    by simp
  have twice: "handleUpdateJob i (noUpdates\<lparr>errorP := Some (Some message), isFetchingP := Some False\<rparr>)
      (handleUpdateJob i (noUpdates\<lparr>isFetchingP := Some True, errorP := Some None\<rparr>) js)
      = map (\<lambda>j. if jobId j = i then j\<lparr>error := Some message, isFetching := False\<rparr> else j) js"
    for js :: "'a Job list"
    by (simp add: handleUpdateJob_def spread_noUpdates_simps)
  have jobs: "jobs ?s2 = map (\<lambda>j. if jobId j = i then j\<lparr>error := Some message, isFetching := False\<rparr>
                            else j) (jobs s)"
    by (simp add: handleFetchDescription_catch_def twice)
  have rest: "resume ?s2 = resume s \<and> view ?s2 = view s
      \<and> activeSuggestion ?s2 = activeSuggestion s \<and> mset (inFlight ?s2) = mset (inFlight s)"
    by (simp add: handleFetchDescription_catch_def)
  from assms(3-5) have "message \<noteq> ''''"
    by (rule fetchJobDescriptionFromUrl_message)
  with run jobs rest show ?thesis by blast
qed

text \<open>
  The theorem at a collection of two jobs, the first with a url and a description pasted
  earlier, and a \<open>fetch\<close> rejected with \<open>Failed to fetch\<close>.
\<close>

theorem fetchDescription_failure_witness:
  "\<exists>s'. run [FetchDescription ''a'',
             FetchRejects (FetchCall ''a'' ''https://example.com/job'') ''Failed to fetch'']
        ((initialApp ''Managed inbound calls.'' :: unit App)
           \<lparr>jobs := [(newJob ''a'')\<lparr>url := ''https://example.com/job'',
                        description := ''Pasted earlier.''\<rparr>, newJob ''b'']\<rparr>) = Some s'
     \<and> jobs s' = [(newJob ''a'')\<lparr>url := ''https://example.com/job'',
                      description := ''Pasted earlier.'', error := Some ''Failed to fetch''\<rparr>,
                   newJob ''b'']"
proof -
  let ?job = "(newJob ''a'' :: unit Job)\<lparr>url := ''https://example.com/job'',
                        description := ''Pasted earlier.''\<rparr>"
  let ?s = "(initialApp ''Managed inbound calls.'' :: unit App)\<lparr>jobs := [?job, newJob ''b'']\<rparr>"
  let ?readText = "\<lambda>b. if b = ''{}'' then Inr '''' else Inl ''Unexpected end of JSON input''"
  have h1: "find (\<lambda>j. jobId j = ''a'') (jobs ?s) = Some ?job"
    by (simp add: initialApp_def newJob_def)
  have h2: "url ?job \<noteq> ''''" by simp
  have h3: "fetchJobDescriptionFromUrl ?readText (Rejected ''Failed to fetch'')
      = Inl ''Failed to fetch''"
    by (simp add: fetchJobDescriptionFromUrl_def)
  have h4: "\<forall>m. Rejected ''Failed to fetch'' = Rejected m \<longrightarrow> m \<noteq> ''''" by auto
  have h5: "\<forall>b m. ?readText b = Inl m \<longrightarrow> m \<noteq> ''''" by auto
  from fetchDescription_failure [OF h1 h2 h3 h4 h5]
  obtain s' where s': "run [FetchDescription ''a'',
             FetchRejects (FetchCall ''a'' (url ?job)) ''Failed to fetch''] ?s = Some s'"
     "jobs s' = map (\<lambda>j. if jobId j = ''a''
                          then j\<lparr>error := Some ''Failed to fetch'', isFetching := False\<rparr>
                          else j) (jobs ?s)"
    by blast
  from s'(2) have "jobs s' = [(newJob ''a'')\<lparr>url := ''https://example.com/job'',
                      description := ''Pasted earlier.'', error := Some ''Failed to fetch''\<rparr>,
                   newJob ''b'']"
    by (simp add: initialApp_def newJob_def)
  with s'(1) show ?thesis by auto
qed

section \<open>Sorting\<close>

lemma mset_insertBy: "mset (insertBy cmp x ys) = add_mset x (mset ys)"
  by (induction ys) simp_all

lemma mset_sortBy: "mset (sortBy cmp xs) = mset xs"
  unfolding sortBy_def by (induction xs) (simp_all add: mset_insertBy)

lemma set_insertBy: "set (insertBy cmp x ys) = insert x (set ys)"
  by (induction ys) auto

text \<open>
  A comparator that orders by a numeric key, largest first, yields a list whose keys
  descend.
\<close>

lemma sorted_insertBy:
  assumes key: "\<And>a b. (cmp a b \<le> 0) = (key b \<le> (key a :: int))"
    and "sorted_wrt (\<lambda>a b. key b \<le> key a) ys"
  shows "sorted_wrt (\<lambda>a b. key b \<le> key a) (insertBy cmp x ys)"
  using assms(2)
proof (induction ys)
  case Nil
  then show ?case by simp
next
  case (Cons y ys)
  show ?case
  proof (cases "cmp x y \<le> 0")
    case True
    then have "key y \<le> key x" by (simp add: key)
    with True Cons.prems show ?thesis by force
  next
    case False
    then have "key x \<le> key y" by (simp add: key)
    with False Cons show ?thesis
      by (auto simp: set_insertBy)
  qed
qed

lemma sorted_sortBy:
  assumes "\<And>a b. (cmp a b \<le> 0) = (key b \<le> (key a :: int))"
  shows "sorted_wrt (\<lambda>a b. key b \<le> key a) (sortBy cmp xs)"
  unfolding sortBy_def
  by (induction xs) (simp_all add: sorted_insertBy [OF assms])





section \<open>The services\<close>

lemma tryFetchJson_fails_iff:
  "(\<exists>err. tryFetchJson decode outcome = Inl err) \<longleftrightarrow>
     (case outcome of
        Rejected m \<Rightarrow> True
      | Resolved resp \<Rightarrow> \<not> ok resp \<or> (\<exists>err. decode (body resp) = Inl err))"
  by (simp add: tryFetchJson_def split: fetched.splits)

text \<open>
  C9. When the remote read fails (the \<open>fetch\<close> is rejected, the status is not 2xx, or
  the body cannot be decoded), \<open>getResumes\<close> reads the local slot. A slot never written is
  seeded with one record, the template, and that record is the result. A written slot is
  left as it is and the result holds exactly its records. In both cases the result is
  sorted by \<open>savedAt\<close>, newest first.
\<close>

theorem getResumes_fallback:
  assumes "tryFetchJson decode outcome = Inl err"
  shows "(store = None \<longrightarrow>
            getResumes decode outcome uuid now templateResumeContent store
              = ([\<lparr>resumeId = uuid, name = ''General Resume Template'',
                    content = templateResumeContent, jobDescription = '''', savedAt = now\<rparr>],
                 Some [\<lparr>resumeId = uuid, name = ''General Resume Template'',
                    content = templateResumeContent, jobDescription = '''', savedAt = now\<rparr>]))
    \<and> (\<forall>rs. store = Some rs \<longrightarrow>
            snd (getResumes decode outcome uuid now templateResumeContent store) = store
            \<and> mset (fst (getResumes decode outcome uuid now templateResumeContent store)) = mset rs)
    \<and> sorted_wrt (\<lambda>a b. savedAt b \<le> savedAt a)
          (fst (getResumes decode outcome uuid now templateResumeContent store))"
proof -
  let ?cmp = "\<lambda>a b :: SavedResume. savedAt b - savedAt a"
  have res: "getResumes decode outcome uuid now templateResumeContent st
      = (sortBy ?cmp (fst (readLocalResumes uuid now templateResumeContent st)),
         snd (readLocalResumes uuid now templateResumeContent st))" for st
    using assms by (simp add: getResumes_def split_beta)
  have seeded: "getResumes decode outcome uuid now templateResumeContent store
              = ([\<lparr>resumeId = uuid, name = ''General Resume Template'',
                    content = templateResumeContent, jobDescription = '''', savedAt = now\<rparr>],
                 Some [\<lparr>resumeId = uuid, name = ''General Resume Template'',
                    content = templateResumeContent, jobDescription = '''', savedAt = now\<rparr>])"
    if "store = None"
    unfolding that res
    by (simp add: readLocalResumes_def seedInitialData_def sortBy_def)
  have kept: "snd (getResumes decode outcome uuid now templateResumeContent store) = store
      \<and> mset (fst (getResumes decode outcome uuid now templateResumeContent store)) = mset rs"
    if "store = Some rs" for rs
    unfolding that res by (simp add: readLocalResumes_def mset_sortBy)
  have "sorted_wrt (\<lambda>a b. savedAt b \<le> savedAt a)
          (fst (getResumes decode outcome uuid now templateResumeContent store))"
    unfolding res fst_conv
    by (rule sorted_sortBy) auto
  with seeded kept show ?thesis by blast
qed

text \<open>
  The theorem at a rejected \<open>fetch\<close>: on an unwritten slot, and on a slot of three
  records saved at times 1, 3 and 2.
\<close>

theorem getResumes_fallback_witness:
  "getResumes (\<lambda>b. Inl ''Unexpected end of JSON input'') (Rejected ''Failed to fetch'')
      ''u'' 1700000000000 ''EDUCATION'' None
     = ([\<lparr>resumeId = ''u'', name = ''General Resume Template'', content = ''EDUCATION'',
           jobDescription = '''', savedAt = 1700000000000\<rparr>],
        Some [\<lparr>resumeId = ''u'', name = ''General Resume Template'', content = ''EDUCATION'',
           jobDescription = '''', savedAt = 1700000000000\<rparr>])
   \<and> snd (getResumes (\<lambda>b. Inl ''Unexpected end of JSON input'') (Rejected ''Failed to fetch'')
      ''u'' 1700000000000 ''EDUCATION''
      (Some [\<lparr>resumeId = ''1'', name = ''first'', content = ''x'', jobDescription = '''',
               savedAt = 1\<rparr>,
             \<lparr>resumeId = ''3'', name = ''third'', content = ''z'', jobDescription = '''',
               savedAt = 3\<rparr>,
             \<lparr>resumeId = ''2'', name = ''second'', content = ''y'', jobDescription = '''',
               savedAt = 2\<rparr>]))
     = Some [\<lparr>resumeId = ''1'', name = ''first'', content = ''x'', jobDescription = '''',
               savedAt = 1\<rparr>,
             \<lparr>resumeId = ''3'', name = ''third'', content = ''z'', jobDescription = '''',
               savedAt = 3\<rparr>,
             \<lparr>resumeId = ''2'', name = ''second'', content = ''y'', jobDescription = '''',
               savedAt = 2\<rparr>]
   \<and> fst (getResumes (\<lambda>b. Inl ''Unexpected end of JSON input'') (Rejected ''Failed to fetch'')
      ''u'' 1700000000000 ''EDUCATION''
      (Some [\<lparr>resumeId = ''1'', name = ''first'', content = ''x'', jobDescription = '''',
               savedAt = 1\<rparr>,
             \<lparr>resumeId = ''3'', name = ''third'', content = ''z'', jobDescription = '''',
               savedAt = 3\<rparr>,
             \<lparr>resumeId = ''2'', name = ''second'', content = ''y'', jobDescription = '''',
               savedAt = 2\<rparr>]))
     = [\<lparr>resumeId = ''3'', name = ''third'', content = ''z'', jobDescription = '''',
               savedAt = 3\<rparr>,
        \<lparr>resumeId = ''2'', name = ''second'', content = ''y'', jobDescription = '''',
               savedAt = 2\<rparr>,
        \<lparr>resumeId = ''1'', name = ''first'', content = ''x'', jobDescription = '''',
               savedAt = 1\<rparr>]"
proof -
  let ?decode = "(\<lambda>b. Inl ''Unexpected end of JSON input'') :: string \<Rightarrow> string + SavedResume list"
  let ?rs = "[\<lparr>resumeId = ''1'', name = ''first'', content = ''x'', jobDescription = '''',
               savedAt = 1\<rparr>,
             \<lparr>resumeId = ''3'', name = ''third'', content = ''z'', jobDescription = '''',
               savedAt = 3\<rparr>,
             \<lparr>resumeId = ''2'', name = ''second'', content = ''y'', jobDescription = '''',
               savedAt = 2\<rparr>]"
  have failed: "tryFetchJson ?decode (Rejected ''Failed to fetch'') = Inl ''Failed to fetch''"
    by (simp add: tryFetchJson_def)
  from getResumes_fallback [OF failed, of None "''u''" 1700000000000 "''EDUCATION''"]
  have seeded: "getResumes ?decode (Rejected ''Failed to fetch'')
      ''u'' 1700000000000 ''EDUCATION'' None
     = ([\<lparr>resumeId = ''u'', name = ''General Resume Template'', content = ''EDUCATION'',
           jobDescription = '''', savedAt = 1700000000000\<rparr>],
        Some [\<lparr>resumeId = ''u'', name = ''General Resume Template'', content = ''EDUCATION'',
           jobDescription = '''', savedAt = 1700000000000\<rparr>])"
    by blast
  from getResumes_fallback [OF failed, of "Some ?rs" "''u''" 1700000000000 "''EDUCATION''"]
  have kept: "snd (getResumes ?decode (Rejected ''Failed to fetch'')
      ''u'' 1700000000000 ''EDUCATION'' (Some ?rs)) = Some ?rs"
    by blast
  have sorted: "fst (getResumes ?decode (Rejected ''Failed to fetch'')
      ''u'' 1700000000000 ''EDUCATION'' (Some ?rs))
     = [\<lparr>resumeId = ''3'', name = ''third'', content = ''z'', jobDescription = '''',
               savedAt = 3\<rparr>,
        \<lparr>resumeId = ''2'', name = ''second'', content = ''y'', jobDescription = '''',
               savedAt = 2\<rparr>,
        \<lparr>resumeId = ''1'', name = ''first'', content = ''x'', jobDescription = '''',
               savedAt = 1\<rparr>]"
    by (simp add: getResumes_def tryFetchJson_def readLocalResumes_def sortBy_def)
  from seeded kept sorted show ?thesis by simp
qed




text \<open>
  \<open>deleteResume\<close> on its local path, reached only when the \<open>fetch\<close> is rejected: an id
  that the cache does not hold gives the error and leaves the cache as it is; an id that it
  holds is removed.
\<close>

lemma deleteResume_fallback_absent:
  "\<forall>r\<in>set rs. resumeId r \<noteq> i \<Longrightarrow>
     deleteResume (Rejected err) i uuid now templateResumeContent (Some rs)
       = (Inl (''Resume with ID '' @ i @ '' not found''), Some rs)"
  by (simp add: deleteResume_def readLocalResumes_def)

lemma deleteResume_fallback_present:
  "\<exists>r\<in>set rs. resumeId r = i \<Longrightarrow>
     deleteResume (Rejected err) i uuid now templateResumeContent (Some rs)
       = (Inr True, Some (filter (\<lambda>r. resumeId r \<noteq> i) rs))"
proof -
  assume "\<exists>r\<in>set rs. resumeId r = i"
  then have "length (filter (\<lambda>r. resumeId r \<noteq> i) rs) \<noteq> length rs"
    by (metis (mono_tags, lifting) filter_id_conv length_filter_less less_irrefl
        order_less_irrefl)
  then show ?thesis
    by (simp add: deleteResume_def readLocalResumes_def writeLocalResumes_def)
qed

text \<open>
  C2. Claimed: deleting an id that is not in the store fails with NotFound. The server
  answers such a request with status 404; \<open>deleteResume\<close> does not look at the status of
  the response (it calls \<open>fetch\<close>, not \<open>tryFetchJson\<close> as the other three operations do)
  and returns success.
\<close>

theorem deleteResume_ignores_status:
  "deleteResume
     (Resolved \<lparr>status = 404, statusText = ''Not Found'', body = ''Not found''\<rparr>)
     ''missing'' ''u'' 1700000000000 ''EDUCATION''
     (Some [\<lparr>resumeId = ''1'', name = ''first'', content = ''x'', jobDescription = '''',
              savedAt = 1\<rparr>])
   = (Inr True,
      Some [\<lparr>resumeId = ''1'', name = ''first'', content = ''x'', jobDescription = '''',
              savedAt = 1\<rparr>])"
  by (simp add: deleteResume_def)

end
